theory Spec2Isabelle
  imports Main "HOL-Library.Sublist"
begin

section \<open>Python values, exceptions and name spaces\<close>

text \<open>
  The service of \<^verbatim>\<open>main.py\<close> is a FastAPI application over an SQLAlchemy session.
  The request body of \<^verbatim>\<open>POST /attendance\<close> is declared \<^verbatim>\<open>dict\<close>, so the handler
  receives a plain Python dictionary decoded from JSON: string keys, in the order of the
  document. Values are the Python values a handler can meet; \<open>PDate\<close> is a
  \<^verbatim>\<open>datetime.date\<close> object and \<open>PObj\<close> an object of which only the name matters
  (a class, a function, a module).
\<close>

record pydate =
  year :: nat
  month :: nat
  day :: nat

datatype pyval =
    PNone
  | PBool bool
  | PInt int
  | PStr string
  | PDate pydate
  | PList "pyval list"
  | PDict "(string \<times> pyval) list"
  | PObj string

type_synonym pydict = "(string \<times> pyval) list"

text \<open>
  The exceptions the handlers can raise. \<open>AttributeError t a\<close> is the failed lookup of
  attribute \<open>a\<close> on an object of type \<open>t\<close>; \<open>HTTPException c d\<close> carries the status
  code and the detail; \<open>StatementError\<close> stands for the errors of the store
  (a value that a column does not accept).
\<close>

datatype exn =
    NameError string
  | AttributeError string string
  | TypeError string
  | HTTPException nat string
  | StatementError string
  | ValidationError string
  | OverflowError string

definition bind_exn :: "exn + 'a \<Rightarrow> ('a \<Rightarrow> exn + 'b) \<Rightarrow> exn + 'b" where
  "bind_exn m f = (case m of Inl e \<Rightarrow> Inl e | Inr v \<Rightarrow> f v)"

type_synonym namespace = "string \<Rightarrow> pyval option"

subsection \<open>Rendering\<close>

definition digit_char :: "nat \<Rightarrow> char" where
  "digit_char d = ''0123456789'' ! (d mod 10)"

fun digits :: "nat \<Rightarrow> string" where
  "digits n = (if n < 10 then [digit_char n] else digits (n div 10) @ [digit_char (n mod 10)])"

declare digits.simps [simp del]

definition zfill :: "nat \<Rightarrow> string \<Rightarrow> string" where
  "zfill w s = replicate (w - length s) (CHR ''0'') @ s"

text \<open>
  A \<^verbatim>\<open>datetime.date\<close> holds a year from 1 to 9999, a month from 1 to 12 and a day
  from 1 to the length of the month (of which only the bound 31 is used here).
\<close>

definition date_range :: "pydate \<Rightarrow> bool" where
  "date_range d =
     (1 \<le> year d \<and> year d \<le> 9999 \<and> 1 \<le> month d \<and> month d \<le> 12 \<and> 1 \<le> day d \<and> day d \<le> 31)"

text \<open>
  \<^verbatim>\<open>a.date.strftime("%Y-%m-%d")\<close>: the format is handed to the C library, which writes
  \<^verbatim>\<open>%Y\<close> as the year in decimal with no padding, and \<^verbatim>\<open>%m\<close> and \<^verbatim>\<open>%d\<close> as
  two digits: the fifth of January of the year 999 is \<^verbatim>\<open>999-01-05\<close>.
\<close>

definition strftime_Ymd :: "pydate \<Rightarrow> string" where
  "strftime_Ymd d =
     digits (year d) @ ''-'' @ zfill 2 (digits (month d)) @ ''-'' @ zfill 2 (digits (day d))"

text \<open>
  The rendering that the specification names, \<^verbatim>\<open>YYYY-MM-DD\<close>, written from its words
  and not from the code: four digits of the year, two of the month and two of the day,
  separated by hyphens, ten characters in all.
\<close>

definition spec_YYYY_MM_DD :: "pydate \<Rightarrow> string" where
  "spec_YYYY_MM_DD d =
     [digit_char (year d div 1000), digit_char (year d div 100), digit_char (year d div 10),
      digit_char (year d), CHR ''-'',
      digit_char (month d div 10), digit_char (month d), CHR ''-'',
      digit_char (day d div 10), digit_char (day d)]"

text \<open>\<^verbatim>\<open>s.startswith(p)\<close> on strings, character by character.\<close>

fun startswith :: "string \<Rightarrow> string \<Rightarrow> bool" where
  "startswith s [] = True"
| "startswith [] (c # p) = False"
| "startswith (x # s) (c # p) = (x = c \<and> startswith s p)"

definition str_int :: "int \<Rightarrow> string" where
  "str_int i = (if i < 0 then ''-'' @ digits (nat (- i)) else digits (nat i))"

text \<open>
  \<^verbatim>\<open>str(e)\<close> of an exception, as the f-string of the handlers' \<^verbatim>\<open>except\<close> branch
  renders it.
\<close>

fun str_exn :: "exn \<Rightarrow> string" where
  "str_exn (NameError n) = ''name '' @ [CHR 0x27] @ n @ [CHR 0x27] @ '' is not defined''"
| "str_exn (AttributeError t a) =
     [CHR 0x27] @ t @ [CHR 0x27] @ '' object has no attribute '' @ [CHR 0x27] @ a @ [CHR 0x27]"
| "str_exn (TypeError m) = m"
| "str_exn (HTTPException c d) = digits c @ '': '' @ d"
| "str_exn (StatementError m) = m"
| "str_exn (ValidationError m) = m"
| "str_exn (OverflowError m) = m"

subsection \<open>The names a function of the module can read\<close>

text \<open>
  A name that a function body reads and never assigns is looked up in the globals of
  the module and then in the builtins. \<open>module_globals\<close> are the names that
  \<^verbatim>\<open>main.py\<close> binds at module level (its imports, assignments, classes and
  functions, and the attributes every module has); \<open>builtin_names\<close> are the names of
  the builtins module: its exception classes, constants and functions.
\<close>

definition module_globals :: "pydict" where
  "module_globals =
     map (\<lambda>n. (n, PObj n))
       [''__name__'', ''__doc__'', ''__package__'', ''__loader__'', ''__spec__'', ''__file__'',
        ''__cached__'', ''__builtins__'',
        ''FastAPI'', ''HTTPException'', ''Path'', ''Depends'', ''BaseModel'', ''List'', ''Dict'',
        ''date'', ''Column'', ''Integer'', ''String'', ''Boolean'', ''Date'', ''create_engine'',
        ''ForeignKey'', ''declarative_base'', ''sessionmaker'', ''relationship'', ''Session'']
     @ [(''DATABASE_URL'', PStr ''sqlite:///./attendance.db'')]
     @ map (\<lambda>n. (n, PObj n))
       [''engine'', ''SessionLocal'', ''Base'', ''get_db'', ''StudentORM'', ''AttendanceORM'',
        ''PostStudent'', ''Attendance'', ''ResponseModel'', ''app'', ''add_student'',
        ''get_students'', ''attendance_isValid'', ''add_attendance'', ''get_all_attendance'',
        ''get_active_attendance'', ''get_deleted_attendance'', ''delete_attendance'',
        ''restore_attendance'']"

definition builtin_names :: "string list" where
  "builtin_names =
     [''ArithmeticError'', ''AssertionError'', ''AttributeError'', ''BaseException'',
      ''BaseExceptionGroup'', ''BlockingIOError'', ''BrokenPipeError'', ''BufferError'',
      ''BytesWarning'', ''ChildProcessError'', ''ConnectionAbortedError'', ''ConnectionError'',
      ''ConnectionRefusedError'', ''ConnectionResetError'', ''DeprecationWarning'',
      ''EOFError'', ''Ellipsis'', ''EncodingWarning'', ''EnvironmentError'', ''Exception'',
      ''ExceptionGroup'', ''False'', ''FileExistsError'', ''FileNotFoundError'',
      ''FloatingPointError'', ''FutureWarning'', ''GeneratorExit'', ''IOError'',
      ''ImportError'', ''ImportWarning'', ''IndentationError'', ''IndexError'',
      ''InterruptedError'', ''IsADirectoryError'', ''KeyError'', ''KeyboardInterrupt'',
      ''LookupError'', ''MemoryError'', ''ModuleNotFoundError'', ''NameError'', ''None'',
      ''NotADirectoryError'', ''NotImplemented'', ''NotImplementedError'', ''OSError'',
      ''OverflowError'', ''PendingDeprecationWarning'', ''PermissionError'',
      ''ProcessLookupError'', ''RecursionError'', ''ReferenceError'', ''ResourceWarning'',
      ''RuntimeError'', ''RuntimeWarning'', ''StopAsyncIteration'', ''StopIteration'',
      ''SyntaxError'', ''SyntaxWarning'', ''SystemError'', ''SystemExit'', ''TabError'',
      ''TimeoutError'', ''True'', ''TypeError'', ''UnboundLocalError'', ''UnicodeDecodeError'',
      ''UnicodeEncodeError'', ''UnicodeError'', ''UnicodeTranslateError'', ''UnicodeWarning'',
      ''UserWarning'', ''ValueError'', ''Warning'', ''ZeroDivisionError'', ''__build_class__'',
      ''__debug__'', ''__doc__'', ''__import__'', ''__loader__'', ''__name__'',
      ''__package__'', ''__spec__'', ''abs'', ''aiter'', ''all'', ''anext'', ''any'',
      ''ascii'', ''bin'', ''bool'', ''breakpoint'', ''bytearray'', ''bytes'', ''callable'',
      ''chr'', ''classmethod'', ''compile'', ''complex'', ''copyright'', ''credits'',
      ''delattr'', ''dict'', ''dir'', ''divmod'', ''enumerate'', ''eval'', ''exec'', ''exit'',
      ''filter'', ''float'', ''format'', ''frozenset'', ''getattr'', ''globals'', ''hasattr'',
      ''hash'', ''help'', ''hex'', ''id'', ''input'', ''int'', ''isinstance'', ''issubclass'',
      ''iter'', ''len'', ''license'', ''list'', ''locals'', ''map'', ''max'', ''memoryview'',
      ''min'', ''next'', ''object'', ''oct'', ''open'', ''ord'', ''pow'', ''print'',
      ''property'', ''quit'', ''range'', ''repr'', ''reversed'', ''round'', ''set'',
      ''setattr'', ''slice'', ''sorted'', ''staticmethod'', ''str'', ''sum'', ''super'',
      ''tuple'', ''type'', ''vars'', ''zip'']"

definition main_namespace :: "namespace" where
  "main_namespace n =
     (case map_of module_globals n of
        Some v \<Rightarrow> Some v
      | None \<Rightarrow> if n \<in> set builtin_names then Some (PObj n) else None)"

subsection \<open>Attributes of a dictionary\<close>

text \<open>
  The attributes that an object of the builtin type \<^verbatim>\<open>dict\<close> has: the methods of
  the type and those it inherits from \<^verbatim>\<open>object\<close>. A dictionary has no instance
  attributes, and its keys are not attributes: \<^verbatim>\<open>d.k\<close> does not read \<^verbatim>\<open>d["k"]\<close>.
  The lookup of any other name raises \<^verbatim>\<open>AttributeError\<close>.
\<close>

definition dict_attributes :: "string list" where
  "dict_attributes =
     [''clear'', ''copy'', ''fromkeys'', ''get'', ''items'', ''keys'', ''pop'', ''popitem'',
      ''setdefault'', ''update'', ''values'',
      ''__class__'', ''__class_getitem__'', ''__contains__'', ''__delattr__'', ''__delitem__'',
      ''__dir__'', ''__doc__'', ''__eq__'', ''__format__'', ''__ge__'', ''__getattribute__'',
      ''__getitem__'', ''__getstate__'', ''__gt__'', ''__hash__'', ''__init__'',
      ''__init_subclass__'', ''__ior__'', ''__iter__'', ''__le__'', ''__len__'', ''__lt__'',
      ''__ne__'', ''__new__'', ''__or__'', ''__reduce__'', ''__reduce_ex__'', ''__repr__'',
      ''__reversed__'', ''__ror__'', ''__setattr__'', ''__setitem__'', ''__sizeof__'', ''__str__'',
      ''__subclasshook__'']"

definition getattr_dict :: "pydict \<Rightarrow> string \<Rightarrow> exn + pyval" where
  "getattr_dict data a =
     (if a \<in> set dict_attributes then Inr (PObj (''dict.'' @ a)) else Inl (AttributeError ''dict'' a))"

text \<open>
  Calling, without arguments, what the attribute lookup returned. Of the attributes of a
  dictionary, the ones modelled are those that can be called without arguments and leave
  the dictionary as it is; a call of another one is reported as \<^verbatim>\<open>TypeError\<close>. The
  handlers look up the names \<^verbatim>\<open>dict\<close> and \<^verbatim>\<open>student_id\<close> only, which are not
  among the attributes.
\<close>

definition call_dict_attr :: "pydict \<Rightarrow> pyval \<Rightarrow> exn + pyval" where
  "call_dict_attr data f =
     (if f = PObj ''dict.copy'' then Inr (PDict data)
      else if f = PObj ''dict.keys'' then Inr (PList (map (\<lambda>kv. PStr (fst kv)) data))
      else if f = PObj ''dict.values'' then Inr (PList (map snd data))
      else if f = PObj ''dict.items'' then Inr (PList (map (\<lambda>kv. PList [PStr (fst kv), snd kv]) data))
      else Inl (TypeError ''call''))"

fun str_pyval :: "pyval \<Rightarrow> string" where
  "str_pyval PNone = ''None''"
| "str_pyval (PBool b) = (if b then ''True'' else ''False'')"
| "str_pyval (PInt i) = str_int i"
| "str_pyval (PStr s) = s"
| "str_pyval (PDate d) = strftime_Ymd d"
| "str_pyval (PList vs) = ''[...]''"
| "str_pyval (PDict kvs) = ''{...}''"
| "str_pyval (PObj n) = ''<'' @ n @ ''>''"

section \<open>The persistence store\<close>

text \<open>
  The two tables of the ORM classes \<^verbatim>\<open>StudentORM\<close> and \<^verbatim>\<open>AttendanceORM\<close>. A table
  is the list of its rows in the order in which a query without \<^verbatim>\<open>ORDER BY\<close>
  scans it, which is the order of the row ids; for rows whose ids the store has given,
  that is the order of insertion. An id is a 64-bit signed integer. Rows hold a value of
  the column type in every column: a row with \<^verbatim>\<open>NULL\<close> in a column cannot be
  written down in this model.
\<close>

record StudentORM =
  s_id :: int
  s_name :: string
  s_class_name :: string

record AttendanceORM =
  a_id :: int
  a_student_id :: int
  a_date :: pydate
  a_status :: string
  a_is_deleted :: bool

record db =
  students :: "StudentORM list"
  attendance :: "AttendanceORM list"

text \<open>
  The id of a new row of a table with an integer primary key: 1 in an empty table, one
  more than the largest id in use otherwise.
\<close>

definition next_id :: "int list \<Rightarrow> int" where
  "next_id ids = (case ids of [] \<Rightarrow> 1 | i # rest \<Rightarrow> fold max rest i + 1)"

definition sqlite_integer :: "int \<Rightarrow> bool" where
  "sqlite_integer i = (- (2 ^ 63) \<le> i \<and> i < 2 ^ 63)"

section \<open>The schemas\<close>

record PostStudent =
  name :: string
  class_name :: string

record Attendance =
  student_id :: int
  date :: pydate
  status :: string
  is_deleted :: bool

record ResponseModel =
  rm_request_method :: string
  rm_param :: pydict
  rm_record :: string
  rm_data :: string

definition PostStudent_dict :: "PostStudent \<Rightarrow> pydict" where
  "PostStudent_dict student = [(''name'', PStr (name student)), (''class_name'', PStr (class_name student))]"

text \<open>
  \<^verbatim>\<open>Attendance(id=a.id, student_id=a.student_id, date=a.date, status=a.status,
  is_deleted=a.is_deleted)\<close>: the schema declares no field \<^verbatim>\<open>id\<close>, so the keyword is
  ignored and the object holds the four declared fields.
\<close>

definition Attendance_of :: "AttendanceORM \<Rightarrow> Attendance" where
  "Attendance_of a =
     \<lparr>student_id = a_student_id a, date = a_date a, status = a_status a, is_deleted = a_is_deleted a\<rparr>"

section \<open>Students\<close>

text \<open>
  \<^verbatim>\<open>add_student\<close>: the body of the \<^verbatim>\<open>try\<close> block, with the exception it raises as
  a value, and the handler that turns every exception into an envelope.
\<close>

definition add_student_try :: "PostStudent \<Rightarrow> db \<Rightarrow> (exn + ResponseModel) \<times> db" where
  "add_student_try student d =
     (case find (\<lambda>s. s_name s = name student) (students d) of
        Some existing \<Rightarrow> (Inl (HTTPException 400 ''Student already exists''), d)
      | None \<Rightarrow>
          (let db_student = \<lparr>s_id = next_id (map s_id (students d)),
                             s_name = name student, s_class_name = class_name student\<rparr>;
               d' = d\<lparr>students := students d @ [db_student]\<rparr>
           in (Inr \<lparr>rm_request_method = ''POST'', rm_param = PostStudent_dict student,
                    rm_record = ''Student'', rm_data = ''Successfully Added Student.''\<rparr>, d')))"

definition add_student :: "PostStudent \<Rightarrow> db \<Rightarrow> ResponseModel \<times> db" where
  "add_student student d =
     (case add_student_try student d of
        (Inr r, d') \<Rightarrow> (r, d')
      | (Inl e, d') \<Rightarrow>
          (\<lparr>rm_request_method = ''POST'', rm_param = PostStudent_dict student,
            rm_record = ''Student'', rm_data = ''Error occurred: '' @ str_exn e\<rparr>, d'))"

definition get_students :: "db \<Rightarrow> PostStudent list" where
  "get_students d = map (\<lambda>s. \<lparr>name = s_name s, class_name = s_class_name s\<rparr>) (students d)"

section \<open>Attendance: validation and creation\<close>

text \<open>
  \<^verbatim>\<open>attendance_isValid(data)\<close>. The body annotates \<^verbatim>\<open>is_valid\<close>, holds a string
  that describes the check to be written, and then reads the name \<^verbatim>\<open>x\<close>, which the
  function never binds: the name is looked up in the name space \<open>g\<close> of the module, and
  the lookup of an unbound name raises \<^verbatim>\<open>NameError\<close>. The parameter \<^verbatim>\<open>data\<close> is
  not read.
\<close>

definition attendance_isValid :: "namespace \<Rightarrow> pydict \<Rightarrow> exn + bool" where
  "attendance_isValid g data =
     (case g ''x'' of
        None \<Rightarrow> Inl (NameError ''x'')
      | Some x \<Rightarrow> (let is_valid = (if x = PStr [] then True else False) in Inr is_valid))"

text \<open>
  A value bound as the parameter of a query: objects, lists, dictionaries and integers
  beyond 64 bits are refused by the driver.
\<close>

definition bind_param :: "pyval \<Rightarrow> exn + pyval" where
  "bind_param v =
     (case v of
        PObj n \<Rightarrow> Inl (StatementError ''Error binding parameter'')
      | PList vs \<Rightarrow> Inl (StatementError ''Error binding parameter'')
      | PDict kvs \<Rightarrow> Inl (StatementError ''Error binding parameter'')
      | PInt i \<Rightarrow>
          (if sqlite_integer i then Inr v
           else Inl (OverflowError ''Python int too large to convert to SQLite INTEGER''))
      | _ \<Rightarrow> Inr v)"

text \<open>
  \<^verbatim>\<open>AttendanceORM(**kw)\<close>: the argument of \<^verbatim>\<open>**\<close> is a mapping, and every keyword is
  an attribute of the class.
\<close>

definition AttendanceORM_attributes :: "string list" where
  "AttendanceORM_attributes = [''id'', ''student_id'', ''date'', ''status'', ''is_deleted'', ''student'']"

definition AttendanceORM_init :: "pyval \<Rightarrow> exn + pydict" where
  "AttendanceORM_init kw =
     (case kw of
        PDict kvs \<Rightarrow>
          (if list_all (\<lambda>kv. fst kv \<in> set AttendanceORM_attributes) kvs then Inr kvs
           else Inl (TypeError ''invalid keyword argument for AttendanceORM''))
      | _ \<Rightarrow> Inl (TypeError ''argument after ** must be a mapping''))"

text \<open>
  \<^verbatim>\<open>db.add(db_attendance); db.commit(); db.refresh(db_attendance)\<close>: the row is
  written with a new id when none is given, and with the column default
  \<^verbatim>\<open>is_deleted = False\<close>; it takes its place in the table by its id. A value that is
  not of the type of its column, and an id in use, are errors of the store. The column
  \<^verbatim>\<open>student_id\<close> is nullable, but a row without a student is not a row of this
  model: the insert of one is reported as an error of the store as well.
\<close>

definition insert_attendance :: "pydict \<Rightarrow> db \<Rightarrow> exn + db" where
  "insert_attendance kvs d =
     (let ids = map a_id (attendance d);
          new_id = (case map_of kvs ''id'' of
                      None \<Rightarrow> Some (next_id ids)
                    | Some PNone \<Rightarrow> Some (next_id ids)
                    | Some (PInt i) \<Rightarrow> (if i \<notin> set ids \<and> sqlite_integer i then Some i else None)
                    | Some _ \<Rightarrow> None);
          deleted = (case map_of kvs ''is_deleted'' of
                       None \<Rightarrow> Some False
                     | Some (PBool b) \<Rightarrow> Some b
                     | Some _ \<Rightarrow> None)
      in case (new_id, map_of kvs ''student_id'', map_of kvs ''date'', map_of kvs ''status'', deleted) of
           (Some i, Some (PInt sid), Some (PDate dt), Some (PStr st), Some del) \<Rightarrow>
             Inr (d\<lparr>attendance := insort_key a_id
                    \<lparr>a_id = i, a_student_id = sid, a_date = dt, a_status = st, a_is_deleted = del\<rparr>
                    (attendance d)\<rparr>)
         | _ \<Rightarrow> Inl (StatementError ''insert into attendance''))"

text \<open>
  \<^verbatim>\<open>ResponseModel(request_method="POST", param=p, record="Attendance", data=s)\<close>: the
  field \<^verbatim>\<open>param\<close> is declared \<^verbatim>\<open>dict\<close>.
\<close>

definition ResponseModel_init :: "string \<Rightarrow> pyval \<Rightarrow> string \<Rightarrow> string \<Rightarrow> exn + ResponseModel" where
  "ResponseModel_init m p r s =
     (case p of
        PDict kvs \<Rightarrow> Inr \<lparr>rm_request_method = m, rm_param = kvs, rm_record = r, rm_data = s\<rparr>
      | _ \<Rightarrow> Inl (ValidationError ''param''))"

text \<open>
  \<^verbatim>\<open>add_attendance\<close>, the body of its \<^verbatim>\<open>try\<close> block: the exception raised, or the
  envelope returned, with the store as it is then.
\<close>

definition add_attendance_try :: "namespace \<Rightarrow> pydict \<Rightarrow> db \<Rightarrow> (exn + ResponseModel) \<times> db" where
  "add_attendance_try g new_attendance_data d =
     (case attendance_isValid g new_attendance_data of
        Inl e \<Rightarrow> (Inl e, d)
      | Inr valid \<Rightarrow>
          if \<not> valid then (Inl (HTTPException 404 ''Invalid Input Paramters''), d)
          else
            (case bind_exn (getattr_dict new_attendance_data ''student_id'') bind_param of
               Inl e \<Rightarrow> (Inl e, d)
             | Inr sid \<Rightarrow>
                 (case find (\<lambda>s. PInt (s_id s) = sid) (students d) of
                    None \<Rightarrow> (Inl (HTTPException 404 ''Student not found''), d)
                  | Some student \<Rightarrow>
                      (case bind_exn (bind_exn (bind_exn (getattr_dict new_attendance_data ''dict'')
                                (call_dict_attr new_attendance_data)) AttendanceORM_init)
                                (\<lambda>db_attendance. insert_attendance db_attendance d) of
                         Inl e \<Rightarrow> (Inl e, d)
                       | Inr d' \<Rightarrow>
                           (bind_exn (bind_exn (getattr_dict new_attendance_data ''dict'')
                                (call_dict_attr new_attendance_data))
                              (\<lambda>param. bind_exn (getattr_dict new_attendance_data ''student_id'')
                                (\<lambda>sid'. ResponseModel_init ''POST'' param ''Attendance''
                                   (''Attendance added successfully for student_id '' @ str_pyval sid'))),
                            d')))))"

text \<open>
  The \<^verbatim>\<open>except Exception\<close> branch builds its envelope from
  \<^verbatim>\<open>new_attendance_data.dict()\<close> as well; an exception raised there leaves the handler.
\<close>

definition add_attendance :: "namespace \<Rightarrow> pydict \<Rightarrow> db \<Rightarrow> (exn + ResponseModel) \<times> db" where
  "add_attendance g new_attendance_data d =
     (case add_attendance_try g new_attendance_data d of
        (Inr r, d') \<Rightarrow> (Inr r, d')
      | (Inl e, d') \<Rightarrow>
          (bind_exn (bind_exn (getattr_dict new_attendance_data ''dict'')
                (call_dict_attr new_attendance_data))
             (\<lambda>param. ResponseModel_init ''POST'' param ''Attendance'' (''Error occurred: '' @ str_exn e)),
           d'))"

section \<open>Attendance: listing, soft delete, restore\<close>

definition get_all_attendance :: "db \<Rightarrow> Attendance list" where
  "get_all_attendance d = map Attendance_of (attendance d)"

definition get_active_attendance :: "string \<Rightarrow> db \<Rightarrow> Attendance list" where
  "get_active_attendance day_month d =
     (let records = filter (\<lambda>a. a_is_deleted a = False) (attendance d);
          filtered = filter (\<lambda>a. startswith (strftime_Ymd (a_date a)) day_month) records
      in map Attendance_of filtered)"

definition get_deleted_attendance :: "string \<Rightarrow> db \<Rightarrow> Attendance list" where
  "get_deleted_attendance day_month d =
     (let records = filter (\<lambda>a. a_is_deleted a = True) (attendance d);
          filtered = filter (\<lambda>a. startswith (strftime_Ymd (a_date a)) day_month) records
      in map Attendance_of filtered)"

text \<open>
  \<^verbatim>\<open>db.query(AttendanceORM).filter(AttendanceORM.id == attendance_id).first()\<close>:
  the first row with that id, \<^verbatim>\<open>None\<close> when there is none. The id of a row is a
  64-bit integer, so an \<^verbatim>\<open>attendance_id\<close> outside that range is the id of no row; the
  driver refuses it as a parameter and the query raises \<^verbatim>\<open>OverflowError\<close>, which
  the two handlers below let pass.
\<close>

definition attendance_by_id :: "int \<Rightarrow> db \<Rightarrow> AttendanceORM option" where
  "attendance_by_id attendance_id d = find (\<lambda>a. a_id a = attendance_id) (attendance d)"

text \<open>
  \<^verbatim>\<open>record.is_deleted = v; db.commit()\<close> on the row that the query returned: the
  first row with that id is written, the others are left as they are.
\<close>

fun set_is_deleted :: "int \<Rightarrow> bool \<Rightarrow> AttendanceORM list \<Rightarrow> AttendanceORM list" where
  "set_is_deleted i v [] = []"
| "set_is_deleted i v (a # rows) =
     (if a_id a = i then a\<lparr>a_is_deleted := v\<rparr> # rows else a # set_is_deleted i v rows)"

definition delete_attendance :: "int \<Rightarrow> db \<Rightarrow> (exn + pydict) \<times> db" where
  "delete_attendance attendance_id d =
     (case attendance_by_id attendance_id d of
        None \<Rightarrow>
          (if sqlite_integer attendance_id then (Inl (HTTPException 404 ''Record not found''), d)
           else (Inl (OverflowError ''Python int too large to convert to SQLite INTEGER''), d))
      | Some record \<Rightarrow>
          (Inr [(''message'', PStr ''Attendance marked as deleted''), (''id'', PInt attendance_id)],
           d\<lparr>attendance := set_is_deleted attendance_id True (attendance d)\<rparr>))"

definition restore_attendance :: "int \<Rightarrow> db \<Rightarrow> (exn + pydict) \<times> db" where
  "restore_attendance attendance_id d =
     (case attendance_by_id attendance_id d of
        None \<Rightarrow>
          (if sqlite_integer attendance_id then (Inl (HTTPException 404 ''Record not found''), d)
           else (Inl (OverflowError ''Python int too large to convert to SQLite INTEGER''), d))
      | Some record \<Rightarrow>
          (Inr [(''message'', PStr ''Attendance restored''), (''id'', PInt attendance_id)],
           d\<lparr>attendance := set_is_deleted attendance_id False (attendance d)\<rparr>))"

section \<open>A small store\<close>

text \<open>
  One student and three attendance rows, dated 2024-03-01, 2024-03-15 and 2024-04-01,
  none of them deleted; a store whose one attendance row is dated in the year 999; and a
  well-formed attendance payload for that student.
\<close>

definition alice :: "StudentORM" where
  "alice = \<lparr>s_id = 1, s_name = ''Alice'', s_class_name = ''10A''\<rparr>"

definition march_1 :: "AttendanceORM" where
  "march_1 = \<lparr>a_id = 1, a_student_id = 1, a_date = \<lparr>year = 2024, month = 3, day = 1\<rparr>,
               a_status = ''Present'', a_is_deleted = False\<rparr>"

definition march_15 :: "AttendanceORM" where
  "march_15 = \<lparr>a_id = 2, a_student_id = 1, a_date = \<lparr>year = 2024, month = 3, day = 15\<rparr>,
                a_status = ''Absent'', a_is_deleted = False\<rparr>"

definition april_1 :: "AttendanceORM" where
  "april_1 = \<lparr>a_id = 3, a_student_id = 1, a_date = \<lparr>year = 2024, month = 4, day = 1\<rparr>,
               a_status = ''Present'', a_is_deleted = False\<rparr>"



definition empty_db :: "db" where
  "empty_db = \<lparr>students = [], attendance = []\<rparr>"

definition alice_db :: "db" where
  "alice_db = \<lparr>students = [alice], attendance = []\<rparr>"

definition spring_db :: "db" where
  "spring_db = \<lparr>students = [alice], attendance = [march_1, march_15, april_1]\<rparr>"

definition present_payload :: "int \<Rightarrow> pydict" where
  "present_payload sid =
     [(''student_id'', PInt sid), (''date'', PStr ''2024-03-05''), (''status'', PStr ''Present'')]"

section \<open>Validation and creation of attendance\<close>

lemma x_unbound: "main_namespace ''x'' = None"
  by (simp add: main_namespace_def module_globals_def builtin_names_def)

lemma dict_has_no_dict: "getattr_dict data ''dict'' = Inl (AttributeError ''dict'' ''dict'')"
  by (simp add: getattr_dict_def dict_attributes_def)

lemma dict_has_no_student_id:
  "getattr_dict data ''student_id'' = Inl (AttributeError ''dict'' ''student_id'')"
  by (simp add: getattr_dict_def dict_attributes_def)

text \<open>
  In the name space of the module the validator raises \<^verbatim>\<open>NameError\<close> on every
  mapping, and in any name space its result does not depend on the mapping.
\<close>

lemma attendance_isValid_raises: "attendance_isValid main_namespace data = Inl (NameError ''x'')"
  by (simp add: attendance_isValid_def x_unbound)

lemma attendance_isValid_ignores_data: "attendance_isValid g data = attendance_isValid g data'"
  by (simp add: attendance_isValid_def)

lemma add_attendance_try_raises:
  "add_attendance_try main_namespace data d = (Inl (NameError ''x''), d)"
  by (simp add: add_attendance_try_def attendance_isValid_raises)

text \<open>
  The \<^verbatim>\<open>NameError\<close> of the validator reaches the \<^verbatim>\<open>except\<close> branch, whose
  \<^verbatim>\<open>new_attendance_data.dict()\<close> raises \<^verbatim>\<open>AttributeError\<close>: the handler returns no
  envelope and the store is as it was.
\<close>

lemma add_attendance_raises:
  "add_attendance main_namespace data d = (Inl (AttributeError ''dict'' ''dict''), d)"
  by (simp add: add_attendance_def add_attendance_try_raises dict_has_no_dict bind_exn_def)

text \<open>
  The same holds in every name space, whatever \<^verbatim>\<open>x\<close> is bound to: a validator that
  returns \<^verbatim>\<open>True\<close> leads to \<^verbatim>\<open>new_attendance_data.student_id\<close>, one that returns
  \<^verbatim>\<open>False\<close> to the \<^verbatim>\<open>HTTPException\<close>, and both to the \<^verbatim>\<open>except\<close> branch.
\<close>

lemma add_attendance_any_namespace:
  "add_attendance g data d = (Inl (AttributeError ''dict'' ''dict''), d)"
  by (auto simp: add_attendance_def add_attendance_try_def dict_has_no_dict
        dict_has_no_student_id bind_exn_def
      split: sum.splits option.splits prod.splits)

text \<open>
  Claim C1. The validator is to return true exactly on the mappings that hold
  \<^verbatim>\<open>student_id\<close>, \<^verbatim>\<open>date\<close> and \<^verbatim>\<open>status\<close> of the right types. On the mapping
  \<^verbatim>\<open>{"student_id": 1, "date": "2024-03-05", "status": "Present"}\<close>, which holds all
  three, the code returns no boolean: it raises \<^verbatim>\<open>NameError\<close> for the name \<^verbatim>\<open>x\<close>.
\<close>

theorem attendance_isValid_well_formed_payload:
  "attendance_isValid main_namespace (present_payload 1) = Inl (NameError ''x'')"
  by (rule attendance_isValid_raises)

text \<open>
  Claim C2. The validator is never to raise, and to answer false on a mapping that lacks
  a required field. On the empty mapping the code raises \<^verbatim>\<open>NameError\<close>.
\<close>

theorem attendance_isValid_empty_mapping:
  "attendance_isValid main_namespace [] = Inl (NameError ''x'')"
  by (rule attendance_isValid_raises)

text \<open>
  Claim C3. A valid payload for an existing student is to create one attendance row
  with \<^verbatim>\<open>is_deleted = False\<close>. With the student Alice of id 1 in the store and a
  well-formed payload for her, the code raises \<^verbatim>\<open>AttributeError\<close> and the attendance
  table is still empty.
\<close>

theorem add_attendance_existing_student:
  "add_attendance main_namespace (present_payload 1) alice_db =
     (Inl (AttributeError ''dict'' ''dict''), alice_db)
   \<and> attendance (snd (add_attendance main_namespace (present_payload 1) alice_db)) = []"
  by (simp add: add_attendance_raises alice_db_def)

text \<open>
  Claim C4. A payload that lacks \<^verbatim>\<open>date\<close> and \<^verbatim>\<open>status\<close> is to be refused with the
  \<^verbatim>\<open>HTTPException\<close> of detail "Invalid Input Paramters", the store unchanged. The store
  is unchanged, but the \<^verbatim>\<open>try\<close> block ends with the \<^verbatim>\<open>NameError\<close> of the validator
  and the handler with \<^verbatim>\<open>AttributeError\<close>.
\<close>

theorem add_attendance_missing_fields:
  "add_attendance_try main_namespace [(''student_id'', PInt 1)] alice_db =
     (Inl (NameError ''x''), alice_db)
   \<and> add_attendance main_namespace [(''student_id'', PInt 1)] alice_db =
     (Inl (AttributeError ''dict'' ''dict''), alice_db)"
  by (simp add: add_attendance_try_raises add_attendance_raises)

text \<open>
  Claim C5. A well-formed payload for a student that the store does not hold is to be
  refused with the \<^verbatim>\<open>HTTPException\<close> of detail "Student not found", the store
  unchanged. No student has the id 7 in the store; the store is unchanged, but the
  handler ends with \<^verbatim>\<open>AttributeError\<close> and the students are never looked up.
\<close>

theorem add_attendance_unknown_student:
  "find (\<lambda>s. s_id s = 7) (students alice_db) = None
   \<and> add_attendance main_namespace (present_payload 7) alice_db =
     (Inl (AttributeError ''dict'' ''dict''), alice_db)"
  by (simp add: add_attendance_raises alice_db_def alice_def)

section \<open>Duplicate students\<close>

lemma add_student_existing:
  assumes "\<exists>s\<in>set (students d). s_name s = name student"
  shows "add_student_try student d = (Inl (HTTPException 400 ''Student already exists''), d)"
proof -
  from assms have "find (\<lambda>s. s_name s = name student) (students d) \<noteq> None"
    by (auto simp: find_None_iff)
  then show ?thesis
    by (auto simp: add_student_try_def)
qed

lemma add_student_new:
  assumes "\<forall>s\<in>set (students d). s_name s \<noteq> name student"
  shows "snd (add_student student d) =
           d\<lparr>students := students d @ [\<lparr>s_id = next_id (map s_id (students d)),
                s_name = name student, s_class_name = class_name student\<rparr>]\<rparr>"
    and "fst (add_student student d) =
           \<lparr>rm_request_method = ''POST'', rm_param = PostStudent_dict student,
            rm_record = ''Student'', rm_data = ''Successfully Added Student.''\<rparr>"
proof -
  from assms have "find (\<lambda>s. s_name s = name student) (students d) = None"
    by (simp add: find_None_iff)
  then show "snd (add_student student d) =
           d\<lparr>students := students d @ [\<lparr>s_id = next_id (map s_id (students d)),
                s_name = name student, s_class_name = class_name student\<rparr>]\<rparr>"
    and "fst (add_student student d) =
           \<lparr>rm_request_method = ''POST'', rm_param = PostStudent_dict student,
            rm_record = ''Student'', rm_data = ''Successfully Added Student.''\<rparr>"
    by (simp_all add: add_student_def add_student_try_def Let_def)
qed

text \<open>
  Claim C6. When the store holds a student of the same name, \<^verbatim>\<open>add_student\<close> raises
  the \<^verbatim>\<open>HTTPException\<close> "Student already exists" in its \<^verbatim>\<open>try\<close> block, answers with
  the envelope that carries it, and leaves the store as it is. And from a store with no
  student named \<open>n\<close>, adding \<open>n\<close> twice ends with that answer for the second call and
  with exactly one student named \<open>n\<close>.
\<close>

theorem add_student_duplicate:
  "((\<exists>s\<in>set (students d). s_name s = name student) \<longrightarrow>
      add_student_try student d = (Inl (HTTPException 400 ''Student already exists''), d)
    \<and> add_student student d =
        (\<lparr>rm_request_method = ''POST'', rm_param = PostStudent_dict student, rm_record = ''Student'',
          rm_data = ''Error occurred: '' @ str_exn (HTTPException 400 ''Student already exists'')\<rparr>, d))
 \<and> ((\<forall>s\<in>set (students d0). s_name s \<noteq> n) \<longrightarrow>
      (let d1 = snd (add_student \<lparr>name = n, class_name = c1\<rparr> d0);
           second = add_student \<lparr>name = n, class_name = c2\<rparr> d1
       in rm_data (fst second) = ''Error occurred: '' @ str_exn (HTTPException 400 ''Student already exists'')
        \<and> snd second = d1
        \<and> length (filter (\<lambda>s. s_name s = n) (students (snd second))) = 1))"
proof (intro conjI impI)
  assume ex: "\<exists>s\<in>set (students d). s_name s = name student"
  show "add_student_try student d = (Inl (HTTPException 400 ''Student already exists''), d)"
    by (rule add_student_existing [OF ex])
  then show "add_student student d =
        (\<lparr>rm_request_method = ''POST'', rm_param = PostStudent_dict student, rm_record = ''Student'',
          rm_data = ''Error occurred: '' @ str_exn (HTTPException 400 ''Student already exists'')\<rparr>, d)"
    by (simp add: add_student_def)
next
  assume fresh: "\<forall>s\<in>set (students d0). s_name s \<noteq> n"
  let ?d1 = "snd (add_student \<lparr>name = n, class_name = c1\<rparr> d0)"
  let ?st2 = "\<lparr>name = n, class_name = c2\<rparr>"
  have d1: "students ?d1 =
      students d0 @ [\<lparr>s_id = next_id (map s_id (students d0)), s_name = n, s_class_name = c1\<rparr>]"
    using fresh add_student_new(1) [of d0 "\<lparr>name = n, class_name = c1\<rparr>"] by simp
  have none: "filter (\<lambda>s. s_name s = n) (students d0) = []"
    using fresh by (simp add: filter_empty_conv)
  have "\<exists>s\<in>set (students ?d1). s_name s = name ?st2"
    by (simp add: d1)
  then have "add_student_try ?st2 ?d1 = (Inl (HTTPException 400 ''Student already exists''), ?d1)"
    by (rule add_student_existing)
  then have second: "add_student ?st2 ?d1 =
      (\<lparr>rm_request_method = ''POST'', rm_param = PostStudent_dict ?st2, rm_record = ''Student'',
        rm_data = ''Error occurred: '' @ str_exn (HTTPException 400 ''Student already exists'')\<rparr>, ?d1)"
    by (simp add: add_student_def)
  have count: "length (filter (\<lambda>s. s_name s = n) (students ?d1)) = 1"
    by (simp add: d1 none)
  show "let d1 = ?d1; second = add_student ?st2 d1
       in rm_data (fst second) = ''Error occurred: '' @ str_exn (HTTPException 400 ''Student already exists'')
        \<and> snd second = d1
        \<and> length (filter (\<lambda>s. s_name s = n) (students (snd second))) = 1"
    unfolding Let_def second using count by simp
qed

text \<open>
  The store that holds Alice refuses a second Alice, of whatever class; and the empty
  store, after Alice is added twice, is the store that holds her once.
\<close>

theorem add_student_duplicate_witness:
  "(\<exists>s\<in>set (students alice_db). s_name s = name \<lparr>name = ''Alice'', class_name = ''10B''\<rparr>)
 \<and> add_student \<lparr>name = ''Alice'', class_name = ''10B''\<rparr> alice_db =
      (\<lparr>rm_request_method = ''POST'',
        rm_param = [(''name'', PStr ''Alice''), (''class_name'', PStr ''10B'')],
        rm_record = ''Student'',
        rm_data = ''Error occurred: 400: Student already exists''\<rparr>, alice_db)
 \<and> students empty_db = []
 \<and> snd (add_student \<lparr>name = ''Alice'', class_name = ''10A''\<rparr> empty_db) = alice_db
 \<and> rm_data (fst (add_student \<lparr>name = ''Alice'', class_name = ''10A''\<rparr> alice_db)) =
      ''Error occurred: 400: Student already exists''
 \<and> snd (add_student \<lparr>name = ''Alice'', class_name = ''10A''\<rparr> alice_db) = alice_db
 \<and> length (filter (\<lambda>s. s_name s = ''Alice'') (students alice_db)) = 1"
proof -
  let ?b = "\<lparr>name = ''Alice'', class_name = ''10B''\<rparr>" and ?a = "\<lparr>name = ''Alice'', class_name = ''10A''\<rparr>"
  have h1: "\<exists>s\<in>set (students alice_db). s_name s = name ?b"
    by (simp add: alice_db_def alice_def)
  have h2: "\<forall>s\<in>set (students empty_db). s_name s \<noteq> ''Alice''"
    by (simp add: empty_db_def)
  have first: "snd (add_student ?a empty_db) = alice_db"
    by (simp add: add_student_def add_student_try_def empty_db_def alice_db_def alice_def next_id_def)
  have msg: "''Error occurred: '' @ str_exn (HTTPException 400 ''Student already exists'') =
      ''Error occurred: 400: Student already exists''"
    by (simp add: digits.simps digit_char_def)
  have par: "PostStudent_dict ?b = [(''name'', PStr ''Alice''), (''class_name'', PStr ''10B'')]"
    by (simp add: PostStudent_dict_def)
  note inst = add_student_duplicate [of alice_db ?b empty_db "''Alice''" "''10A''" "''10A''"]
  from inst h1 have "add_student ?b alice_db =
      (\<lparr>rm_request_method = ''POST'', rm_param = PostStudent_dict ?b, rm_record = ''Student'',
        rm_data = ''Error occurred: '' @ str_exn (HTTPException 400 ''Student already exists'')\<rparr>, alice_db)"
    by blast
  then have a: "add_student ?b alice_db =
      (\<lparr>rm_request_method = ''POST'',
        rm_param = [(''name'', PStr ''Alice''), (''class_name'', PStr ''10B'')],
        rm_record = ''Student'',
        rm_data = ''Error occurred: 400: Student already exists''\<rparr>, alice_db)"
    unfolding msg par .
  from inst h2 have "let d1 = snd (add_student ?a empty_db); second = add_student ?a d1
       in rm_data (fst second) = ''Error occurred: '' @ str_exn (HTTPException 400 ''Student already exists'')
        \<and> snd second = d1
        \<and> length (filter (\<lambda>s. s_name s = ''Alice'') (students (snd second))) = 1"
    by blast
  then have b: "rm_data (fst (add_student ?a alice_db)) = ''Error occurred: 400: Student already exists''
        \<and> snd (add_student ?a alice_db) = alice_db
        \<and> length (filter (\<lambda>s. s_name s = ''Alice'') (students (snd (add_student ?a alice_db)))) = 1"
    unfolding Let_def first msg .
  then have c: "length (filter (\<lambda>s. s_name s = ''Alice'') (students alice_db)) = 1"
    by metis
  have h2': "students empty_db = []"
    by (simp add: empty_db_def)
  from h1 a h2' first b c show ?thesis
    by blast
qed

section \<open>Properties of the listings\<close>


subsection \<open>The rendering of a date\<close>

lemma digit_char_mod: "digit_char (n mod 10) = digit_char n"
  by (simp add: digit_char_def)

lemma digit_char_0: "digit_char 0 = CHR ''0''"
  by (simp add: digit_char_def)

lemma div_10_10: "(n::nat) div 10 div 10 = n div 100" "(n::nat) div 10 div 100 = n div 1000"
  by (simp_all add: div_mult2_eq [symmetric])

lemma digits_1: "n < 10 \<Longrightarrow> digits n = [digit_char n]"
  by (simp add: digits.simps)

lemma digits_2: "10 \<le> n \<Longrightarrow> n < 100 \<Longrightarrow> digits n = [digit_char (n div 10), digit_char n]"
  by (subst digits.simps) (simp add: digits_1 digit_char_mod)

lemma digits_3:
  "100 \<le> n \<Longrightarrow> n < 1000 \<Longrightarrow>
     digits n = [digit_char (n div 100), digit_char (n div 10), digit_char n]"
  by (subst digits.simps) (simp add: digits_2 digit_char_mod div_10_10)


lemma zfill_2_digits:
  "n < 100 \<Longrightarrow> zfill 2 (digits n) = [digit_char (n div 10), digit_char n]"
  by (cases "n < 10") (simp_all add: zfill_def digits_1 digits_2 digit_char_0)


lemma strftime_Ymd_short_year:
  assumes "date_range d" and "year d < 1000"
  shows "length (strftime_Ymd d) < 10" and "length (spec_YYYY_MM_DD d) = 10"
proof -
  from assms have m: "month d < 100" and dd: "day d < 100"
    by (simp_all add: date_range_def)
  have "length (digits (year d)) \<le> 3"
  proof (cases "year d < 10")
    case True
    then show ?thesis by (simp add: digits_1)
  next
    case False
    show ?thesis
    proof (cases "year d < 100")
      case True
      with \<open>\<not> year d < 10\<close> show ?thesis by (simp add: digits_2)
    next
      case False
      with assms(2) show ?thesis by (simp add: digits_3)
    qed
  qed
  then show "length (strftime_Ymd d) < 10"
    by (simp add: strftime_Ymd_def zfill_2_digits m dd)
  show "length (spec_YYYY_MM_DD d) = 10"
    by (simp add: spec_YYYY_MM_DD_def)
qed

lemma strftime_Ymd_spring:
  "strftime_Ymd (a_date march_1) = ''2024-03-01''"
  "strftime_Ymd (a_date march_15) = ''2024-03-15''"
  "strftime_Ymd (a_date april_1) = ''2024-04-01''"
  by (simp_all add: march_1_def march_15_def april_1_def strftime_Ymd_def zfill_def
      digits.simps digit_char_def)




subsection \<open>The two listings\<close>

text \<open>
  The rows dated 2024-03-01, 2024-03-15 and 2024-04-01, evaluated on the code: the prefix
  \<^verbatim>\<open>2024-03\<close> selects the first two, the prefix \<^verbatim>\<open>2024-03-15\<close> the second, and
  nothing is listed as deleted.
\<close>

lemma listing_spring:
  "get_active_attendance ''2024-03'' spring_db = [Attendance_of march_1, Attendance_of march_15]"
  "get_active_attendance ''2024-03-15'' spring_db = [Attendance_of march_15]"
  "get_deleted_attendance ''2024-03'' spring_db = []"
  by (simp_all add: get_active_attendance_def get_deleted_attendance_def spring_db_def
      strftime_Ymd_spring)
    (simp_all add: march_1_def march_15_def april_1_def)




text \<open>
  Claim C10. No schema object is returned by both listings of a store: the objects of
  the active listing hold \<^verbatim>\<open>is_deleted = False\<close>, those of the deleted listing
  \<^verbatim>\<open>is_deleted = True\<close>.
\<close>

theorem active_deleted_disjoint:
  "set (get_active_attendance p d) \<inter> set (get_deleted_attendance p' d) = {}"
  by (auto simp: get_active_attendance_def get_deleted_attendance_def Attendance_of_def)

section \<open>Soft delete and restore\<close>

lemma spring_ids: "a_id march_1 = 1" "a_id march_15 = 2" "a_id april_1 = 3"
  by (simp_all add: march_1_def march_15_def april_1_def)

lemma find_set_is_deleted:
  "find (\<lambda>a. a_id a = i) (set_is_deleted i v rows) =
     map_option (\<lambda>a. a\<lparr>a_is_deleted := v\<rparr>) (find (\<lambda>a. a_id a = i) rows)"
  by (induction rows) auto

lemma set_is_deleted_twice:
  "set_is_deleted i w (set_is_deleted i v rows) = set_is_deleted i w rows"
  by (induction rows) auto

lemma set_is_deleted_same:
  "find (\<lambda>a. a_id a = i) rows = Some r \<Longrightarrow> a_is_deleted r = v \<Longrightarrow> set_is_deleted i v rows = rows"
  by (induction rows) (auto split: if_splits)

lemma attendance_by_id_delete:
  "attendance_by_id i (snd (delete_attendance i d)) =
     map_option (\<lambda>a. a\<lparr>a_is_deleted := True\<rparr>) (attendance_by_id i d)"
  by (simp add: delete_attendance_def attendance_by_id_def find_set_is_deleted split: option.splits)

lemma attendance_by_id_restore:
  "attendance_by_id i (snd (restore_attendance i d)) =
     map_option (\<lambda>a. a\<lparr>a_is_deleted := False\<rparr>) (attendance_by_id i d)"
  by (simp add: restore_attendance_def attendance_by_id_def find_set_is_deleted split: option.splits)

lemma delete_attendance_ok:
  "attendance_by_id i d = Some r \<Longrightarrow>
     fst (delete_attendance i d) =
       Inr [(''message'', PStr ''Attendance marked as deleted''), (''id'', PInt i)]"
  by (simp add: delete_attendance_def)

lemma restore_attendance_ok:
  "attendance_by_id i d = Some r \<Longrightarrow>
     fst (restore_attendance i d) = Inr [(''message'', PStr ''Attendance restored''), (''id'', PInt i)]"
  by (simp add: restore_attendance_def)

text \<open>
  Claim C8. For an id that the attendance table holds, \<^verbatim>\<open>delete_attendance\<close> returns
  its message and the row is deleted afterwards, and so again when it is called a second
  time on the resulting store; \<^verbatim>\<open>restore_attendance\<close> returns its message and the row
  is not deleted afterwards, and so again the second time.
\<close>

theorem soft_delete_restore_idempotent:
  assumes "attendance_by_id i d = Some r"
  shows "fst (delete_attendance i d) =
           Inr [(''message'', PStr ''Attendance marked as deleted''), (''id'', PInt i)]
       \<and> map_option a_is_deleted (attendance_by_id i (snd (delete_attendance i d))) = Some True
       \<and> fst (delete_attendance i (snd (delete_attendance i d))) = fst (delete_attendance i d)
       \<and> map_option a_is_deleted
           (attendance_by_id i (snd (delete_attendance i (snd (delete_attendance i d))))) = Some True
       \<and> fst (restore_attendance i d) =
           Inr [(''message'', PStr ''Attendance restored''), (''id'', PInt i)]
       \<and> map_option a_is_deleted (attendance_by_id i (snd (restore_attendance i d))) = Some False
       \<and> fst (restore_attendance i (snd (restore_attendance i d))) = fst (restore_attendance i d)
       \<and> map_option a_is_deleted
           (attendance_by_id i (snd (restore_attendance i (snd (restore_attendance i d))))) = Some False"
proof -
  let ?d1 = "snd (delete_attendance i d)" and ?r1 = "snd (restore_attendance i d)"
  have d1: "attendance_by_id i ?d1 = Some (r\<lparr>a_is_deleted := True\<rparr>)"
    using assms by (simp add: attendance_by_id_delete)
  have r1: "attendance_by_id i ?r1 = Some (r\<lparr>a_is_deleted := False\<rparr>)"
    using assms by (simp add: attendance_by_id_restore)
  have d2: "attendance_by_id i (snd (delete_attendance i ?d1)) = Some (r\<lparr>a_is_deleted := True\<rparr>)"
    by (subst attendance_by_id_delete, subst d1, simp)
  have r2: "attendance_by_id i (snd (restore_attendance i ?r1)) = Some (r\<lparr>a_is_deleted := False\<rparr>)"
    by (subst attendance_by_id_restore, subst r1, simp)
  show ?thesis
    using delete_attendance_ok [OF assms] delete_attendance_ok [OF d1]
      restore_attendance_ok [OF assms] restore_attendance_ok [OF r1] d1 d2 r1 r2
    by simp
qed

theorem soft_delete_restore_idempotent_witness:
  "attendance_by_id 2 spring_db = Some march_15
 \<and> fst (delete_attendance 2 (snd (delete_attendance 2 spring_db))) =
     Inr [(''message'', PStr ''Attendance marked as deleted''), (''id'', PInt 2)]
 \<and> map_option a_is_deleted
     (attendance_by_id 2 (snd (delete_attendance 2 (snd (delete_attendance 2 spring_db))))) = Some True
 \<and> fst (restore_attendance 2 (snd (restore_attendance 2 spring_db))) =
     Inr [(''message'', PStr ''Attendance restored''), (''id'', PInt 2)]
 \<and> map_option a_is_deleted
     (attendance_by_id 2 (snd (restore_attendance 2 (snd (restore_attendance 2 spring_db))))) = Some False"
proof -
  have h: "attendance_by_id 2 spring_db = Some march_15"
    by (simp add: attendance_by_id_def spring_db_def spring_ids)
  from soft_delete_restore_idempotent [OF h] h show ?thesis
    by simp
qed

text \<open>
  Claim C9. For a row of the attendance table that is not deleted, \<^verbatim>\<open>delete_attendance\<close>
  followed by \<^verbatim>\<open>restore_attendance\<close> on its id both return their messages, and the row
  found under the id afterwards is the row found before: \<^verbatim>\<open>is_deleted\<close> is false again
  and id, student, date and status are as they were. The whole store is as it was.
\<close>

theorem soft_delete_then_restore:
  assumes "attendance_by_id i d = Some r" and "a_is_deleted r = False"
  shows "fst (delete_attendance i d) =
           Inr [(''message'', PStr ''Attendance marked as deleted''), (''id'', PInt i)]
       \<and> map_option a_is_deleted (attendance_by_id i (snd (delete_attendance i d))) = Some True
       \<and> fst (restore_attendance i (snd (delete_attendance i d))) =
           Inr [(''message'', PStr ''Attendance restored''), (''id'', PInt i)]
       \<and> attendance_by_id i (snd (restore_attendance i (snd (delete_attendance i d)))) = Some r
       \<and> snd (restore_attendance i (snd (delete_attendance i d))) = d"
proof -
  let ?d1 = "snd (delete_attendance i d)"
  have d1: "attendance_by_id i ?d1 = Some (r\<lparr>a_is_deleted := True\<rparr>)"
    using assms by (simp add: attendance_by_id_delete)
  have rows: "set_is_deleted i False (set_is_deleted i True (attendance d)) = attendance d"
    using assms by (simp add: set_is_deleted_twice set_is_deleted_same attendance_by_id_def)
  have store: "snd (restore_attendance i ?d1) = d"
    using assms(1) d1 rows by (simp add: restore_attendance_def delete_attendance_def)
  show ?thesis
    using delete_attendance_ok [OF assms(1)] restore_attendance_ok [OF d1] store assms(1) d1
    by simp
qed

theorem soft_delete_then_restore_witness:
  "attendance_by_id 1 spring_db = Some march_1 \<and> a_is_deleted march_1 = False
 \<and> map_option a_is_deleted (attendance_by_id 1 (snd (delete_attendance 1 spring_db))) = Some True
 \<and> attendance_by_id 1 (snd (restore_attendance 1 (snd (delete_attendance 1 spring_db)))) = Some march_1
 \<and> snd (restore_attendance 1 (snd (delete_attendance 1 spring_db))) = spring_db"
proof -
  have h1: "attendance_by_id 1 spring_db = Some march_1"
    by (simp add: attendance_by_id_def spring_db_def spring_ids)
  have h2: "a_is_deleted march_1 = False"
    by (simp add: march_1_def)
  from soft_delete_then_restore [OF h1 h2] h1 h2 show ?thesis
    by simp
qed

end
